theory Spec2Isabelle
  imports Main "HOL-Library.AList" "HOL-Library.Word"
begin

section \<open>Python values and exceptions\<close>

text \<open>
  The values that flow through the handlers and the provider: what \<^verbatim>\<open>json.loads\<close>
  produces, plus the integers the handlers return. A \<^verbatim>\<open>str\<close> is a list of code
  points below 256 (one \<^typ>\<open>char\<close> per code point), a \<^verbatim>\<open>float\<close> is its IEEE-754
  binary64 bit pattern, a \<^verbatim>\<open>dict\<close> with string keys is an association list read
  with \<^const>\<open>map_of\<close> and written with \<^const>\<open>AList.update\<close>.
\<close>

datatype pyval =
    PNone
  | PBool bool
  | PInt int
  | PFloat "64 word"
  | PStr string
  | PList "pyval list"
  | PDict "(string \<times> pyval) list"

datatype pyerr =
    ValueError
  | TypeError
  | AttributeError
  | OverflowError
  | MalformedFileError
  | OtherError string

text \<open>Truth value testing (\<^verbatim>\<open>if x:\<close>, \<^verbatim>\<open>not x\<close>, \<^verbatim>\<open>bool(x)\<close>).\<close>

fun py_truthy :: "pyval \<Rightarrow> bool" where
  "py_truthy PNone = False"
| "py_truthy (PBool b) = b"
| "py_truthy (PInt i) = (i \<noteq> 0)"
| "py_truthy (PFloat w) = (push_bit 1 w \<noteq> 0)"
| "py_truthy (PStr s) = (s \<noteq> [])"
| "py_truthy (PList xs) = (xs \<noteq> [])"
| "py_truthy (PDict d) = (d \<noteq> [])"

text \<open>\<^verbatim>\<open>isinstance(value, int)\<close>: \<^verbatim>\<open>bool\<close> is a subclass of \<^verbatim>\<open>int\<close>.\<close>

fun py_isinstance_int :: "pyval \<Rightarrow> bool" where
  "py_isinstance_int (PInt i) = True"
| "py_isinstance_int (PBool b) = True"
| "py_isinstance_int v = False"

fun py_isinstance_float :: "pyval \<Rightarrow> bool" where
  "py_isinstance_float (PFloat w) = True"
| "py_isinstance_float v = False"

fun py_isinstance_bool :: "pyval \<Rightarrow> bool" where
  "py_isinstance_bool (PBool b) = True"
| "py_isinstance_bool v = False"

fun py_isinstance_str :: "pyval \<Rightarrow> bool" where
  "py_isinstance_str (PStr s) = True"
| "py_isinstance_str v = False"

subsection \<open>\<^verbatim>\<open>str.lower\<close>\<close>

definition py_lower_char :: "char \<Rightarrow> char" where
  "py_lower_char c =
     (let n = (of_char c :: nat)
      in if (65 \<le> n \<and> n \<le> 90) \<or> (192 \<le> n \<and> n \<le> 222 \<and> n \<noteq> 215)
         then char_of (n + 32) else c)"

definition py_lower :: "string \<Rightarrow> string" where
  "py_lower s = map py_lower_char s"

subsection \<open>\<^verbatim>\<open>int(str)\<close>\<close>

text \<open>
  \<^verbatim>\<open>int(s)\<close> in base 10: surrounding whitespace is stripped (tab to carriage return,
  space, and the two spaces U+0085 and U+00A0 beyond ASCII), one sign is allowed,
  then decimal digits, where single underscores may separate digits. Anything else is a
  \<^verbatim>\<open>ValueError\<close>, here \<^const>\<open>None\<close>. The interpreter's optional limit on the number
  of digits (also a \<^verbatim>\<open>ValueError\<close>) is not part of the model.
\<close>

definition py_isspace :: "char \<Rightarrow> bool" where
  "py_isspace c =
     (let n = (of_char c :: nat)
      in (9 \<le> n \<and> n \<le> 13) \<or> n = 32 \<or> n = 133 \<or> n = 160)"

definition py_strip :: "string \<Rightarrow> string" where
  "py_strip s = rev (dropWhile py_isspace (rev (dropWhile py_isspace s)))"

definition py_isdigit :: "char \<Rightarrow> bool" where
  "py_isdigit c = (let n = (of_char c :: nat) in 48 \<le> n \<and> n \<le> 57)"

definition digit_val :: "char \<Rightarrow> nat" where
  "digit_val c = of_char c - 48"

fun parse_digits :: "string \<Rightarrow> nat \<Rightarrow> nat option" where
  "parse_digits [] acc = Some acc"
| "parse_digits (c # cs) acc =
     (if py_isdigit c then parse_digits cs (acc * 10 + digit_val c)
      else if c = CHR ''_'' then
        (case cs of
           [] \<Rightarrow> None
         | d # ds \<Rightarrow> if py_isdigit d then parse_digits ds (acc * 10 + digit_val d) else None)
      else None)"

definition parse_unsigned :: "string \<Rightarrow> nat option" where
  "parse_unsigned s =
     (case s of
        [] \<Rightarrow> None
      | c # cs \<Rightarrow> if py_isdigit c then parse_digits cs (digit_val c) else None)"

definition py_int_of_str :: "string \<Rightarrow> int option" where
  "py_int_of_str s =
     (case py_strip s of
        [] \<Rightarrow> None
      | c # cs \<Rightarrow>
          if c = CHR ''-'' then map_option (\<lambda>n. - int n) (parse_unsigned cs)
          else if c = CHR ''+'' then map_option int (parse_unsigned cs)
          else map_option int (parse_unsigned (c # cs)))"

subsection \<open>\<^verbatim>\<open>int(float)\<close>\<close>

text \<open>
  Truncation towards zero of a binary64 value; an infinity is an \<^verbatim>\<open>OverflowError\<close>,
  a NaN a \<^verbatim>\<open>ValueError\<close>.
\<close>

definition py_int_of_float :: "64 word \<Rightarrow> pyerr + int" where
  "py_int_of_float w =
     (let neg = bit w 63;
          e = uint (take_bit 11 (drop_bit 52 w));
          m = uint (take_bit 52 w)
      in if e = 2047 then (if m = 0 then Inl OverflowError else Inl ValueError)
         else
           (let sig = (if e = 0 then m else 2 ^ 52 + m);
                ex = (if e = 0 then 1 else e);
                mag = (if 1075 \<le> ex then sig * 2 ^ nat (ex - 1075)
                       else sig div 2 ^ nat (1075 - ex))
            in Inr (if neg then - mag else mag)))"

section \<open>Context and properties\<close>

text \<open>
  The context of one \<^verbatim>\<open>describe\<close> call: the warnings reported so far (property name
  and offending value) and the data the debug-dump producer would print.
\<close>

record Context =
  warnings :: "(string \<times> pyval) list"
  debug_data :: "pyval option"

record Property =
  name :: string

text \<open>
  Modelled from the spec: \<^verbatim>\<open>Property.report\<close> of \<^verbatim>\<open>knowit/property.py\<close> is not
  among the sources. The specification says that \<^verbatim>\<open>report(value, context)\<close> records a
  warning in the context and yields no output value for the field.
\<close>

definition Property_report :: "'a Property_scheme \<Rightarrow> pyval \<Rightarrow> Context \<Rightarrow> Context" where
  "Property_report self val context =
     context\<lparr>warnings := warnings context @ [(name self, val)]\<rparr>"

subsection \<open>Declared data types of \<^verbatim>\<open>Basic\<close>\<close>

text \<open>
  \<^verbatim>\<open>Basic\<close> uses its \<^verbatim>\<open>data_type\<close> in two ways: \<^verbatim>\<open>isinstance(value, data_type)\<close> and the
  call \<^verbatim>\<open>data_type(value)\<close>, which returns a value or raises.
\<close>

record data_type =
  isinstance :: "pyval \<Rightarrow> bool"
  construct :: "pyval \<Rightarrow> pyerr + pyval"

fun int_construct :: "pyval \<Rightarrow> pyerr + pyval" where
  "int_construct (PInt i) = Inr (PInt i)"
| "int_construct (PBool b) = Inr (PInt (if b then 1 else 0))"
| "int_construct (PFloat w) = map_sum id PInt (py_int_of_float w)"
| "int_construct (PStr s) = (case py_int_of_str s of None \<Rightarrow> Inl ValueError | Some i \<Rightarrow> Inr (PInt i))"
| "int_construct v = Inl TypeError"

definition py_int :: data_type where
  "py_int = \<lparr>isinstance = py_isinstance_int, construct = int_construct\<rparr>"

text \<open>
  \<^verbatim>\<open>float(value)\<close>: the conversions of a string (\<^const>\<open>None\<close> is the \<^verbatim>\<open>ValueError\<close>)
  and of an integer (\<^const>\<open>None\<close> is the \<^verbatim>\<open>OverflowError\<close>) to binary64 are parameters.
\<close>

fun float_construct ::
  "(string \<Rightarrow> 64 word option) \<Rightarrow> (int \<Rightarrow> 64 word option) \<Rightarrow> pyval \<Rightarrow> pyerr + pyval" where
  "float_construct float_of_str float_of_int (PFloat w) = Inr (PFloat w)"
| "float_construct float_of_str float_of_int (PInt i) =
     (case float_of_int i of None \<Rightarrow> Inl OverflowError | Some w \<Rightarrow> Inr (PFloat w))"
| "float_construct float_of_str float_of_int (PBool b) =
     (case float_of_int (if b then 1 else 0) of None \<Rightarrow> Inl OverflowError | Some w \<Rightarrow> Inr (PFloat w))"
| "float_construct float_of_str float_of_int (PStr s) =
     (case float_of_str s of None \<Rightarrow> Inl ValueError | Some w \<Rightarrow> Inr (PFloat w))"
| "float_construct float_of_str float_of_int v = Inl TypeError"

definition py_float :: "(string \<Rightarrow> 64 word option) \<Rightarrow> (int \<Rightarrow> 64 word option) \<Rightarrow> data_type" where
  "py_float float_of_str float_of_int =
     \<lparr>isinstance = py_isinstance_float, construct = float_construct float_of_str float_of_int\<rparr>"

definition py_bool :: data_type where
  "py_bool = \<lparr>isinstance = py_isinstance_bool, construct = (\<lambda>v. Inr (PBool (py_truthy v)))\<rparr>"

text \<open>\<^verbatim>\<open>str(value)\<close> never raises on these values; its rendering is a parameter.\<close>

definition py_str :: "(pyval \<Rightarrow> string) \<Rightarrow> data_type" where
  "py_str to_str = \<lparr>isinstance = py_isinstance_str, construct = (\<lambda>v. Inr (PStr (to_str v)))\<rparr>"

subsection \<open>\<^verbatim>\<open>Basic.handle\<close> (knowit/properties/basic.py)\<close>

record Basic = Property +
  data_type :: data_type
  allow_fallback :: bool

text \<open>
  The result pairs the outcome (a raised exception or the returned value, \<^const>\<open>PNone\<close>
  when the method falls off its end) with the context as the call leaves it.
\<close>

definition Basic_handle :: "Basic \<Rightarrow> pyval \<Rightarrow> Context \<Rightarrow> (pyerr + pyval) \<times> Context" where
  "Basic_handle self val context =
     (if isinstance (data_type self) val then (Inr val, context)
      else
        (case construct (data_type self) val of
           Inr v \<Rightarrow> (Inr v, context)
         | Inl ValueError \<Rightarrow>
             if \<not> allow_fallback self then (Inr PNone, Property_report self val context)
             else (Inr PNone, context)
         | Inl e \<Rightarrow> (Inl e, context)))"

subsection \<open>\<^verbatim>\<open>AudioChannels.handle\<close> (knowit/properties/audio/channels.py)\<close>

definition AudioChannels_ignored :: "string set" where
  "AudioChannels_ignored = {''object based''}"

definition AudioChannels_handle :: "Property \<Rightarrow> pyval \<Rightarrow> Context \<Rightarrow> (pyerr + pyval) \<times> Context" where
  "AudioChannels_handle self val context =
     (if py_isinstance_int val then (Inr val, context)
      else
        (case val of
           PStr s \<Rightarrow>
             (let v = py_lower s
              in if v \<notin> AudioChannels_ignored then
                   (case py_int_of_str v of
                      Some i \<Rightarrow> (Inr (PInt i), context)
                    | None \<Rightarrow> (Inr PNone, Property_report self val context))
                 else (Inr PNone, context))
         | _ \<Rightarrow> (Inl AttributeError, context)))"

section \<open>The MediaInfo provider (knowit/providers/mediainfo.py)\<close>

subsection \<open>Dictionary and string helpers\<close>

text \<open>\<^verbatim>\<open>d.get(key, default)\<close>: only a \<^verbatim>\<open>dict\<close> has the method.\<close>

fun py_get :: "pyval \<Rightarrow> string \<Rightarrow> pyval \<Rightarrow> pyerr + pyval" where
  "py_get (PDict d) key dflt = Inr (case map_of d key of None \<Rightarrow> dflt | Some v \<Rightarrow> v)"
| "py_get v key dflt = Inl AttributeError"

text \<open>\<^verbatim>\<open>for x in v\<close>: a list gives its elements, a string its characters, a dict its keys.\<close>

fun py_iter :: "pyval \<Rightarrow> pyerr + pyval list" where
  "py_iter (PList xs) = Inr xs"
| "py_iter (PStr s) = Inr (map (\<lambda>c. PStr [c]) s)"
| "py_iter (PDict d) = Inr (map (\<lambda>kv. PStr (fst kv)) (AList.clearjunk d))"
| "py_iter v = Inl TypeError"

text \<open>\<^verbatim>\<open>v[key] = x\<close> with a string key: only a \<^verbatim>\<open>dict\<close> accepts it.\<close>

fun py_setitem :: "pyval \<Rightarrow> string \<Rightarrow> pyval \<Rightarrow> pyerr + pyval" where
  "py_setitem (PDict d) key x = Inr (PDict (AList.update key x d))"
| "py_setitem v key x = Inl TypeError"

fun py_join :: "string \<Rightarrow> string list \<Rightarrow> string" where
  "py_join sep [] = []"
| "py_join sep [x] = x"
| "py_join sep (x # y # ys) = x @ sep @ py_join sep (y # ys)"

definition py_endswith :: "string \<Rightarrow> string list \<Rightarrow> bool" where
  "py_endswith s sufs =
     list_ex (\<lambda>e. length e \<le> length s \<and> drop (length s - length e) s = e) sufs"

function str_of_nat :: "nat \<Rightarrow> string" where
  "str_of_nat n =
     (if n < 10 then [char_of (48 + n)]
      else str_of_nat (n div 10) @ [char_of (48 + n mod 10)])"
  by pat_completeness auto
termination
  by (relation "measure id") auto

definition str_of_int :: "int \<Rightarrow> string" where
  "str_of_int i = (if i < 0 then CHR ''-'' # str_of_nat (nat (- i)) else str_of_nat (nat i))"

subsection \<open>Executors\<close>

record MediaInfoExecutor =
  location :: string
  version :: "int list"

text \<open>
  \<^verbatim>\<open>MediaInfoExecutor.get_executor_instance\<close>: the results of the two \<^verbatim>\<open>create\<close> calls
  (the ctypes executor, then the command line one) are the argument; the first executor
  found is returned, and nothing when there is none.
\<close>

fun get_executor_instance :: "MediaInfoExecutor option list \<Rightarrow> MediaInfoExecutor option" where
  "get_executor_instance [] = None"
| "get_executor_instance (Some executor # rest) = Some executor"
| "get_executor_instance (None # rest) = get_executor_instance rest"

text \<open>
  The attribute \<^verbatim>\<open>self.executor\<close> holds \<^verbatim>\<open>None\<close>, \<^verbatim>\<open>False\<close> or an executor.
\<close>

datatype executor_attr = ExecNone | ExecFalse | Exec MediaInfoExecutor

record MediaInfoProvider =
  executor :: executor_attr

definition MediaInfoProvider_init :: "MediaInfoExecutor option list \<Rightarrow> MediaInfoProvider" where
  "MediaInfoProvider_init creates =
     \<lparr>executor = (case get_executor_instance creates of None \<Rightarrow> ExecNone | Some ex \<Rightarrow> Exec ex)\<rparr>"

subsection \<open>\<^verbatim>\<open>accepts\<close>\<close>

text \<open>
  The tuple \<^verbatim>\<open>VIDEO_EXTENSIONS\<close> of the package is a parameter. The result is the value
  returned and the provider as the call leaves it.
\<close>

definition MediaInfoProvider_accepts ::
  "string list \<Rightarrow> MediaInfoProvider \<Rightarrow> string \<Rightarrow> pyval \<times> MediaInfoProvider" where
  "MediaInfoProvider_accepts video_extensions self video_path =
     (let self1 = (if executor self = ExecNone then self\<lparr>executor := ExecFalse\<rparr> else self)
      in (case executor self1 of
            ExecNone \<Rightarrow> PNone
          | ExecFalse \<Rightarrow> PBool False
          | Exec ex \<Rightarrow> PBool (py_endswith (py_lower video_path) video_extensions),
          self1))"

subsection \<open>\<^verbatim>\<open>version\<close>\<close>

text \<open>The constant \<^verbatim>\<open>pymediainfo.__version__\<close> is a parameter.\<close>

definition MediaInfoProvider_version :: "string \<Rightarrow> MediaInfoProvider \<Rightarrow> pyval" where
  "MediaInfoProvider_version pymediainfo_version self =
     (let versions = [(''pymediainfo'', PStr pymediainfo_version)]
      in case executor self of
           Exec ex \<Rightarrow>
             (let executor_version = py_join ''.'' (map str_of_int (version ex))
              in PDict (AList.update (location ex) (PStr (''v'' @ executor_version)) versions))
         | _ \<Rightarrow> PDict versions)"

subsection \<open>\<^verbatim>\<open>describe\<close>\<close>

text \<open>The four lists the loop of \<^verbatim>\<open>describe\<close> appends to.\<close>

record track_lists =
  general_tracks :: "pyval list"
  video_tracks :: "pyval list"
  audio_tracks :: "pyval list"
  subtitle_tracks :: "pyval list"

definition no_tracks :: track_lists where
  "no_tracks = \<lparr>general_tracks = [], video_tracks = [], audio_tracks = [], subtitle_tracks = []\<rparr>"

text \<open>
  The loop over the tracks (lines 297 to 306). A track that is not a \<^verbatim>\<open>dict\<close> has no
  \<^verbatim>\<open>get\<close>, which ends the loop with the exception.
\<close>

fun classify :: "pyval list \<Rightarrow> track_lists \<Rightarrow> pyerr + track_lists" where
  "classify [] acc = Inr acc"
| "classify (track # rest) acc =
     (case py_get track ''@type'' PNone of
        Inl e \<Rightarrow> Inl e
      | Inr track_type \<Rightarrow>
          if track_type = PStr ''General'' then
            classify rest (acc\<lparr>general_tracks := general_tracks acc @ [track]\<rparr>)
          else if track_type = PStr ''Video'' then
            classify rest (acc\<lparr>video_tracks := video_tracks acc @ [track]\<rparr>)
          else if track_type = PStr ''Audio'' then
            classify rest (acc\<lparr>audio_tracks := audio_tracks acc @ [track]\<rparr>)
          else if track_type = PStr ''Text'' then
            classify rest (acc\<lparr>subtitle_tracks := subtitle_tracks acc @ [track]\<rparr>)
          else classify rest acc)"

text \<open>\<^verbatim>\<open>data.get('media', {}).get('track', [])\<close>\<close>

definition get_tracks :: "pyval \<Rightarrow> pyerr + pyval" where
  "get_tracks data =
     (case py_get data ''media'' (PDict []) of
        Inl e \<Rightarrow> Inl e
      | Inr media \<Rightarrow> py_get media ''track'' (PList []))"

text \<open>
  \<^verbatim>\<open>Provider._describe_tracks\<close> of \<^verbatim>\<open>knowit/provider.py\<close> is not among the sources; it
  is a parameter of the model: from the path, the general track, the three track lists
  and the context it returns a value or raises, and leaves a context.
\<close>

type_synonym describe_tracks_fn =
  "string \<Rightarrow> pyval \<Rightarrow> pyval list \<Rightarrow> pyval list \<Rightarrow> pyval list \<Rightarrow> Context
     \<Rightarrow> (pyerr + pyval) \<times> Context"

text \<open>Lines 290 to 309: the value of \<^verbatim>\<open>result\<close> before it is tested.\<close>

definition describe_result ::
  "describe_tracks_fn \<Rightarrow> string \<Rightarrow> pyval \<Rightarrow> Context \<Rightarrow> (pyerr + pyval) \<times> Context" where
  "describe_result describe_tracks video_path data context =
     (case get_tracks data of
        Inl e \<Rightarrow> (Inl e, context)
      | Inr tracks \<Rightarrow>
          if py_truthy tracks then
            (case py_iter tracks of
               Inl e \<Rightarrow> (Inl e, context)
             | Inr ts \<Rightarrow>
                 (case classify ts no_tracks of
                    Inl e \<Rightarrow> (Inl e, context)
                  | Inr g \<Rightarrow>
                      describe_tracks video_path
                        (case general_tracks g of [] \<Rightarrow> PDict [] | t # _ \<Rightarrow> t)
                        (video_tracks g) (audio_tracks g) (subtitle_tracks g) context))
          else (Inr (PDict []), context))"

text \<open>Lines 310 to 318: the test of \<^verbatim>\<open>result\<close> and the provider block.\<close>

definition add_provider ::
  "string \<Rightarrow> MediaInfoProvider \<Rightarrow> (pyerr + pyval) \<times> Context \<Rightarrow> (pyerr + pyval) \<times> Context" where
  "add_provider pymediainfo_version self rc =
     (case rc of
        (Inl e, context) \<Rightarrow> (Inl e, context)
      | (Inr result, context) \<Rightarrow>
          if \<not> py_truthy result then (Inl MalformedFileError, context)
          else
            (py_setitem result ''provider''
               (PDict [(''name'', PStr ''mediainfo''),
                       (''version'', MediaInfoProvider_version pymediainfo_version self)]),
             context))"

text \<open>
  \<^verbatim>\<open>describe\<close>. The parameter \<^verbatim>\<open>extract_info\<close> stands for lines 277 and 278, the call of
  the executor followed by \<^verbatim>\<open>json.loads\<close>: it gives the parsed data or the exception
  raised. Without an executor the attribute access on \<^verbatim>\<open>None\<close> or \<^verbatim>\<open>False\<close> raises.
  The context entry \<^verbatim>\<open>debug_data\<close> is the data its producer would dump. Logging is not
  part of the model.
\<close>

definition MediaInfoProvider_describe ::
  "describe_tracks_fn \<Rightarrow> (MediaInfoExecutor \<Rightarrow> string \<Rightarrow> pyerr + pyval) \<Rightarrow> string
     \<Rightarrow> MediaInfoProvider \<Rightarrow> string \<Rightarrow> Context \<Rightarrow> (pyerr + pyval) \<times> Context" where
  "MediaInfoProvider_describe describe_tracks extract_info pymediainfo_version self
       video_path context =
     (case executor self of
        Exec ex \<Rightarrow>
          (case extract_info ex video_path of
             Inl e \<Rightarrow> (Inl e, context)
           | Inr data \<Rightarrow>
               add_provider pymediainfo_version self
                 (describe_result describe_tracks video_path data
                    (context\<lparr>debug_data := Some data\<rparr>)))
      | _ \<Rightarrow> (Inl AttributeError, context))"

subsection \<open>Notions used to state the properties of \<^verbatim>\<open>describe\<close>\<close>

text \<open>A raw track is a \<^verbatim>\<open>dict\<close>; its type is what \<^verbatim>\<open>track.get('@type')\<close> returns.\<close>

fun is_dict :: "pyval \<Rightarrow> bool" where
  "is_dict (PDict d) = True"
| "is_dict v = False"

definition has_type :: "string \<Rightarrow> pyval \<Rightarrow> bool" where
  "has_type ty track = (py_get track ''@type'' PNone = Inr (PStr ty))"


text \<open>
  Concrete inputs for the examples: the probe output \<^verbatim>\<open>{"media": {"track": ts}}\<close>, a
  provider whose executor was found, an empty context, and a stand-in for
  \<^verbatim>\<open>_describe_tracks\<close> that returns its arguments.
\<close>

definition probe_output :: "pyval list \<Rightarrow> pyval" where
  "probe_output ts = PDict [(''media'', PDict [(''track'', PList ts)])]"

definition example_track :: "string \<Rightarrow> string \<Rightarrow> pyval" where
  "example_track ty title = PDict [(''@type'', PStr ty), (''Title'', PStr title)]"

definition example_executor :: MediaInfoExecutor where
  "example_executor = \<lparr>location = ''libmediainfo.so.0'', version = [18, 12]\<rparr>"

definition example_provider :: MediaInfoProvider where
  "example_provider = \<lparr>executor = Exec example_executor\<rparr>"

definition example_context :: Context where
  "example_context = \<lparr>warnings = [], debug_data = None\<rparr>"


definition echo_tracks :: describe_tracks_fn where
  "echo_tracks video_path general videos audios subtitles context =
     (Inr (PDict [(''path'', PStr video_path), (''general'', general), (''video'', PList videos),
                  (''audio'', PList audios), (''subtitle'', PList subtitles)]), context)"

section \<open>Properties of the handlers\<close>

lemmas int_parse_defs = py_lower_def py_lower_char_def py_int_of_str_def py_strip_def
  py_isspace_def parse_unsigned_def py_isdigit_def digit_val_def

text \<open>
  C2: for the AudioChannels handler and any context, \<^verbatim>\<open>handle("6", ctx)\<close> returns the
  integer 6; \<^verbatim>\<open>handle("object based", ctx)\<close> returns no value and leaves the context as
  it is; \<^verbatim>\<open>handle("six", ctx)\<close> returns no value and records exactly one warning.
\<close>

theorem AudioChannels_handle_examples:
  "AudioChannels_handle self (PStr ''6'') context = (Inr (PInt 6), context)
   \<and> AudioChannels_handle self (PStr ''object based'') context = (Inr PNone, context)
   \<and> fst (AudioChannels_handle self (PStr ''six'') context) = Inr PNone
   \<and> warnings (snd (AudioChannels_handle self (PStr ''six'') context))
       = warnings context @ [(name self, PStr ''six'')]
   \<and> length (warnings (snd (AudioChannels_handle self (PStr ''six'') context)))
       = length (warnings context) + 1"
  by (simp add: AudioChannels_handle_def AudioChannels_ignored_def Property_report_def
        int_parse_defs)

theorem AudioChannels_handle_examples_witness:
  "AudioChannels_handle \<lparr>name = ''Channels''\<rparr> (PStr ''6'') \<lparr>warnings = [], debug_data = None\<rparr>
     = (Inr (PInt 6), \<lparr>warnings = [], debug_data = None\<rparr>)
   \<and> warnings (snd (AudioChannels_handle \<lparr>name = ''Channels''\<rparr> (PStr ''six'')
        \<lparr>warnings = [], debug_data = None\<rparr>)) = [(''Channels'', PStr ''six'')]"
  using AudioChannels_handle_examples
    [of "\<lparr>name = ''Channels''\<rparr>" "\<lparr>warnings = [], debug_data = None\<rparr>"]
  by simp

text \<open>
  C3, as the code has it: for the Basic handler and every string that is not an instance
  of the declared data type and whose coercion raises \<^verbatim>\<open>ValueError\<close>: without
  \<^verbatim>\<open>allow_fallback\<close> the value is reported (one warning recorded) and no value is
  returned; with \<^verbatim>\<open>allow_fallback\<close> no value is returned either and no warning is
  recorded. The raw string is not returned.
\<close>

theorem Basic_handle_coercion_failure:
  assumes "\<not> isinstance (data_type b) (PStr s)"
    and "construct (data_type b) (PStr s) = Inl ValueError"
  shows "(\<not> allow_fallback b \<longrightarrow>
            Basic_handle b (PStr s) context = (Inr PNone, Property_report b (PStr s) context)
            \<and> warnings (Property_report b (PStr s) context)
                = warnings context @ [(name b, PStr s)])
       \<and> (allow_fallback b \<longrightarrow> Basic_handle b (PStr s) context = (Inr PNone, context))"
  using assms by (simp add: Basic_handle_def Property_report_def)

theorem Basic_handle_coercion_failure_witness:
  "\<not> isinstance py_int (PStr ''abc'')
   \<and> construct py_int (PStr ''abc'') = Inl ValueError
   \<and> Basic_handle \<lparr>name = ''ID'', data_type = py_int, allow_fallback = False\<rparr> (PStr ''abc'')
        \<lparr>warnings = [], debug_data = None\<rparr>
      = (Inr PNone, \<lparr>warnings = [(''ID'', PStr ''abc'')], debug_data = None\<rparr>)
   \<and> Basic_handle \<lparr>name = ''ID'', data_type = py_int, allow_fallback = True\<rparr> (PStr ''abc'')
        \<lparr>warnings = [], debug_data = None\<rparr>
      = (Inr PNone, \<lparr>warnings = [], debug_data = None\<rparr>)"
proof -
  have h1: "\<not> isinstance py_int (PStr ''abc'')"
    by (simp add: py_int_def)
  have h2: "construct py_int (PStr ''abc'') = Inl ValueError"
    by (simp add: py_int_def int_parse_defs)
  show ?thesis
    using h1 h2
      Basic_handle_coercion_failure
        [of "\<lparr>name = ''ID'', data_type = py_int, allow_fallback = False\<rparr>" "''abc''"
            "\<lparr>warnings = [], debug_data = None\<rparr>"]
      Basic_handle_coercion_failure
        [of "\<lparr>name = ''ID'', data_type = py_int, allow_fallback = True\<rparr>" "''abc''"
            "\<lparr>warnings = [], debug_data = None\<rparr>"]
    by (simp add: Property_report_def)
qed

text \<open>
  C3 as the specification states it fails: with \<^verbatim>\<open>allow_fallback\<close> set, the integer
  handler given \<^verbatim>\<open>"abc"\<close> returns no value, not the string \<^verbatim>\<open>"abc"\<close>.
\<close>

theorem Basic_fallback_counterexample:
  "\<not> isinstance py_int (PStr ''abc'')
   \<and> construct py_int (PStr ''abc'') = Inl ValueError
   \<and> Basic_handle \<lparr>name = ''ID'', data_type = py_int, allow_fallback = True\<rparr> (PStr ''abc'')
        \<lparr>warnings = [], debug_data = None\<rparr> = (Inr PNone, \<lparr>warnings = [], debug_data = None\<rparr>)
   \<and> fst (Basic_handle \<lparr>name = ''ID'', data_type = py_int, allow_fallback = True\<rparr> (PStr ''abc'')
        \<lparr>warnings = [], debug_data = None\<rparr>) \<noteq> Inr (PStr ''abc'')"
  by (simp add: Basic_handle_def py_int_def int_parse_defs)

text \<open>
  C4: for every string and any context, \<^verbatim>\<open>Basic.handle\<close> (with the data type int, float,
  bool or str) and \<^verbatim>\<open>AudioChannels.handle\<close> raise nothing: they return a value of the
  type and leave the context alone, or they return no value and record at most the one
  warning of \<^verbatim>\<open>report\<close>.
\<close>

theorem handlers_never_raise_on_strings:
  assumes "data_type b \<in> {py_int, py_float float_of_str float_of_int, py_bool, py_str to_str}"
  shows "((\<exists>v. Basic_handle b (PStr s) context = (Inr v, context)
              \<and> v \<noteq> PNone \<and> isinstance (data_type b) v)
          \<or> Basic_handle b (PStr s) context = (Inr PNone, context)
          \<or> Basic_handle b (PStr s) context = (Inr PNone, Property_report b (PStr s) context))
       \<and> ((\<exists>i. AudioChannels_handle self (PStr s) context = (Inr (PInt i), context))
          \<or> AudioChannels_handle self (PStr s) context = (Inr PNone, context)
          \<or> AudioChannels_handle self (PStr s) context
               = (Inr PNone, Property_report self (PStr s) context))"
proof
  show "(\<exists>v. Basic_handle b (PStr s) context = (Inr v, context)
              \<and> v \<noteq> PNone \<and> isinstance (data_type b) v)
          \<or> Basic_handle b (PStr s) context = (Inr PNone, context)
          \<or> Basic_handle b (PStr s) context = (Inr PNone, Property_report b (PStr s) context)"
    using assms
    by (auto simp: Basic_handle_def py_int_def py_float_def py_bool_def py_str_def
             split: option.splits)
  show "(\<exists>i. AudioChannels_handle self (PStr s) context = (Inr (PInt i), context))
          \<or> AudioChannels_handle self (PStr s) context = (Inr PNone, context)
          \<or> AudioChannels_handle self (PStr s) context
               = (Inr PNone, Property_report self (PStr s) context)"
    by (auto simp: AudioChannels_handle_def Let_def split: option.splits)
qed

theorem handlers_never_raise_on_strings_witness:
  "data_type \<lparr>name = ''ID'', data_type = py_int, allow_fallback = False\<rparr>
      \<in> {py_int, py_float (\<lambda>s. None) (\<lambda>i. None), py_bool, py_str (\<lambda>v. [])}
   \<and> Basic_handle \<lparr>name = ''ID'', data_type = py_int, allow_fallback = False\<rparr> (PStr ''4 2'')
        \<lparr>warnings = [], debug_data = None\<rparr>
      = (Inr PNone, \<lparr>warnings = [(''ID'', PStr ''4 2'')], debug_data = None\<rparr>)
   \<and> AudioChannels_handle \<lparr>name = ''Channels''\<rparr> (PStr ''4 2'')
        \<lparr>warnings = [], debug_data = None\<rparr>
      = (Inr PNone, \<lparr>warnings = [(''Channels'', PStr ''4 2'')], debug_data = None\<rparr>)"
proof -
  have h: "data_type \<lparr>name = ''ID'', data_type = py_int, allow_fallback = False\<rparr>
      \<in> {py_int, py_float (\<lambda>s. None) (\<lambda>i. None), py_bool, py_str (\<lambda>v. [])}"
    by simp
  have b: "\<And>v. Basic_handle \<lparr>name = ''ID'', data_type = py_int, allow_fallback = False\<rparr>
        (PStr ''4 2'') \<lparr>warnings = [], debug_data = None\<rparr>
      = (Inr v, \<lparr>warnings = [], debug_data = None\<rparr>) \<Longrightarrow> False"
    by (simp add: Basic_handle_def py_int_def Property_report_def int_parse_defs)
  have a: "\<And>w. AudioChannels_handle \<lparr>name = ''Channels''\<rparr> (PStr ''4 2'')
        \<lparr>warnings = [], debug_data = None\<rparr>
      = (w, \<lparr>warnings = [], debug_data = None\<rparr>) \<Longrightarrow> False"
    by (simp add: AudioChannels_handle_def AudioChannels_ignored_def Property_report_def
          int_parse_defs)
  show ?thesis
    using h b a
      handlers_never_raise_on_strings [OF h, of "''4 2''" "\<lparr>warnings = [], debug_data = None\<rparr>"
        "\<lparr>name = ''Channels''\<rparr>"]
    by (auto simp: Property_report_def)
qed

text \<open>
  C6: a value that is already an instance of the handler's type (the declared data type
  of Basic, \<^verbatim>\<open>int\<close> for AudioChannels) is returned unchanged, and the context with it.
\<close>

theorem handle_identity_on_typed:
  "(isinstance (data_type b) v \<longrightarrow> Basic_handle b v context = (Inr v, context))
   \<and> (py_isinstance_int v \<longrightarrow> AudioChannels_handle self v context = (Inr v, context))"
  by (simp add: Basic_handle_def AudioChannels_handle_def)

theorem handle_identity_on_typed_witness:
  "isinstance (data_type \<lparr>name = ''ID'', data_type = py_int, allow_fallback = False\<rparr>) (PInt 3)
   \<and> Basic_handle \<lparr>name = ''ID'', data_type = py_int, allow_fallback = False\<rparr> (PInt 3)
        \<lparr>warnings = [], debug_data = None\<rparr> = (Inr (PInt 3), \<lparr>warnings = [], debug_data = None\<rparr>)
   \<and> py_isinstance_int (PInt 6)
   \<and> AudioChannels_handle \<lparr>name = ''Channels''\<rparr> (PInt 6) \<lparr>warnings = [], debug_data = None\<rparr>
       = (Inr (PInt 6), \<lparr>warnings = [], debug_data = None\<rparr>)"
  using handle_identity_on_typed
      [of "\<lparr>name = ''ID'', data_type = py_int, allow_fallback = False\<rparr>"
          "PInt 3" "\<lparr>warnings = [], debug_data = None\<rparr>"]
    handle_identity_on_typed
      [of "\<lparr>name = ''ID'', data_type = py_int, allow_fallback = False\<rparr>"
          "PInt 6" "\<lparr>warnings = [], debug_data = None\<rparr>" "\<lparr>name = ''Channels''\<rparr>"]
  by (simp add: py_int_def)

text \<open>
  C9: the ignored tokens are matched on the lowercased value: every string whose
  lowercasing is \<^verbatim>\<open>"object based"\<close> gives no value and no warning.
\<close>

theorem AudioChannels_ignored_case_insensitive:
  assumes "py_lower s = ''object based''"
  shows "AudioChannels_handle self (PStr s) context = (Inr PNone, context)"
  using assms by (simp add: AudioChannels_handle_def AudioChannels_ignored_def)

theorem AudioChannels_ignored_case_insensitive_witness:
  "py_lower ''Object BASED'' = ''object based''
   \<and> AudioChannels_handle \<lparr>name = ''Channels''\<rparr> (PStr ''Object BASED'')
        \<lparr>warnings = [], debug_data = None\<rparr> = (Inr PNone, \<lparr>warnings = [], debug_data = None\<rparr>)"
proof -
  have h: "py_lower ''Object BASED'' = ''object based''"
    by code_simp
  show ?thesis
    using h AudioChannels_ignored_case_insensitive [OF h] by simp
qed

section \<open>Properties of the provider\<close>

lemmas example_defs = probe_output_def example_track_def example_executor_def
  example_provider_def example_context_def echo_tracks_def

subsection \<open>The loop over the tracks\<close>

lemma has_type_dict:
  "has_type ty (PDict d) = (map_of d ''@type'' = Some (PStr ty))"
  by (auto simp: has_type_def split: option.splits)

lemma classify_step:
  "classify (PDict d # rest) acc =
     (if has_type ''General'' (PDict d) then
        classify rest (acc\<lparr>general_tracks := general_tracks acc @ [PDict d]\<rparr>)
      else if has_type ''Video'' (PDict d) then
        classify rest (acc\<lparr>video_tracks := video_tracks acc @ [PDict d]\<rparr>)
      else if has_type ''Audio'' (PDict d) then
        classify rest (acc\<lparr>audio_tracks := audio_tracks acc @ [PDict d]\<rparr>)
      else if has_type ''Text'' (PDict d) then
        classify rest (acc\<lparr>subtitle_tracks := subtitle_tracks acc @ [PDict d]\<rparr>)
      else classify rest acc)"
  by (simp add: has_type_def)

lemma has_type_excl:
  "has_type ''General'' t \<Longrightarrow> \<not> has_type ''Video'' t \<and> \<not> has_type ''Audio'' t \<and> \<not> has_type ''Text'' t"
  "has_type ''Video'' t \<Longrightarrow> \<not> has_type ''Audio'' t \<and> \<not> has_type ''Text'' t"
  "has_type ''Audio'' t \<Longrightarrow> \<not> has_type ''Text'' t"
  by (simp_all add: has_type_def)

lemma classify_dicts:
  "list_all is_dict ts \<Longrightarrow>
   classify ts acc =
     Inr \<lparr>general_tracks = general_tracks acc @ filter (has_type ''General'') ts,
          video_tracks = video_tracks acc @ filter (has_type ''Video'') ts,
          audio_tracks = audio_tracks acc @ filter (has_type ''Audio'') ts,
          subtitle_tracks = subtitle_tracks acc @ filter (has_type ''Text'') ts\<rparr>"
proof (induction ts arbitrary: acc)
  case Nil
  then show ?case by simp
next
  case (Cons t ts)
  from Cons.prems obtain d where t: "t = PDict d"
    by (cases t) simp_all
  from Cons.prems have rest: "list_all is_dict ts"
    by simp
  show ?case
    unfolding t classify_step
    using has_type_excl [of "PDict d"]
    by (simp add: Cons.IH [OF rest])
qed

lemma describe_result_dicts:
  assumes "get_tracks data = Inr (PList ts)" and "list_all is_dict ts"
  shows "describe_result describe_tracks video_path data context =
     (if ts = [] then (Inr (PDict []), context)
      else describe_tracks video_path
             (case filter (has_type ''General'') ts of [] \<Rightarrow> PDict [] | t # _ \<Rightarrow> t)
             (filter (has_type ''Video'') ts) (filter (has_type ''Audio'') ts)
             (filter (has_type ''Text'') ts) context)"
  using assms by (simp add: describe_result_def classify_dicts no_tracks_def)


lemma filter_not_general:
  "ty \<in> {''Video'', ''Audio'', ''Text''} \<Longrightarrow>
   filter (\<lambda>t. \<not> has_type ''General'' t \<and> has_type ty t) ys = filter (has_type ty) ys"
  by (rule filter_cong) (auto simp: has_type_def)


lemma describe_result_later_general:
  assumes "list_all is_dict (xs @ g # ys)"
    and "\<forall>t \<in> set xs. \<not> has_type ''General'' t"
    and "has_type ''General'' g"
    and "get_tracks data = Inr (PList (xs @ g # ys))"
    and "get_tracks data' = Inr (PList (xs @ g # filter (\<lambda>t. \<not> has_type ''General'' t) ys))"
  shows "describe_result describe_tracks video_path data context
         = describe_result describe_tracks video_path data' context"
proof -
  have d: "list_all is_dict (xs @ g # filter (\<lambda>t. \<not> has_type ''General'' t) ys)"
    using assms(1) by (auto simp: list_all_iff)
  have f: "filter (has_type ''General'') xs = []"
    using assms(2) by (simp add: filter_empty_conv)
  have n: "\<not> has_type ''Video'' g" "\<not> has_type ''Audio'' g" "\<not> has_type ''Text'' g"
    using has_type_excl(1) [OF assms(3)] by simp_all
  show ?thesis
    using f n assms(3)
    by (simp add: describe_result_dicts [OF assms(4) assms(1)]
          describe_result_dicts [OF assms(5) d] filter_not_general)
qed

lemma map_of_update_same: "map_of (AList.update k v al) k = Some v"
  by (simp add: update_conv')

lemma py_setitem_Inr:
  "py_setitem r k x = Inr res \<Longrightarrow> \<exists>d0. r = PDict d0 \<and> res = PDict (AList.update k x d0)"
  by (cases r) simp_all

lemma add_provider_Inr:
  assumes "add_provider pymediainfo_version self (o1, c1) = (Inr result, c')"
  shows "\<exists>d0. result = PDict (AList.update ''provider''
                 (PDict [(''name'', PStr ''mediainfo''),
                         (''version'', MediaInfoProvider_version pymediainfo_version self)]) d0)"
proof (cases o1)
  case (Inl e)
  with assms show ?thesis
    by (simp add: add_provider_def)
next
  case (Inr r)
  with assms have "py_setitem r ''provider''
       (PDict [(''name'', PStr ''mediainfo''),
               (''version'', MediaInfoProvider_version pymediainfo_version self)]) = Inr result"
    by (simp add: add_provider_def split: if_splits)
  from py_setitem_Inr [OF this] show ?thesis
    by blast
qed

subsection \<open>The claims about \<^verbatim>\<open>describe\<close>, \<^verbatim>\<open>accepts\<close> and \<^verbatim>\<open>version\<close>\<close>

text \<open>
  C1: when the track list of the probe output is empty, \<^verbatim>\<open>describe\<close> raises
  \<^verbatim>\<open>MalformedFileError\<close> and returns no result, whatever \<^verbatim>\<open>_describe_tracks\<close> is.
\<close>

theorem describe_empty_track_list:
  assumes "executor self = Exec ex"
    and "extract_info ex video_path = Inr data"
    and "get_tracks data = Inr (PList [])"
  shows "MediaInfoProvider_describe describe_tracks extract_info pymediainfo_version self
           video_path context
         = (Inl MalformedFileError, context\<lparr>debug_data := Some data\<rparr>)"
  using assms
  by (simp add: MediaInfoProvider_describe_def describe_result_def add_provider_def)

theorem describe_empty_track_list_witness:
  "executor \<lparr>executor = Exec \<lparr>location = ''mediainfo'', version = [18, 12]\<rparr>\<rparr>
     = Exec \<lparr>location = ''mediainfo'', version = [18, 12]\<rparr>
   \<and> get_tracks (PDict [(''media'', PDict [(''track'', PList [])])]) = Inr (PList [])
   \<and> MediaInfoProvider_describe (\<lambda>p g v a s c. (Inr (PDict [(''path'', PStr p)]), c))
        (\<lambda>e p. Inr (PDict [(''media'', PDict [(''track'', PList [])])])) ''20.0''
        \<lparr>executor = Exec \<lparr>location = ''mediainfo'', version = [18, 12]\<rparr>\<rparr> ''a.mkv''
        \<lparr>warnings = [], debug_data = None\<rparr>
      = (Inl MalformedFileError,
         \<lparr>warnings = [], debug_data = Some (PDict [(''media'', PDict [(''track'', PList [])])])\<rparr>)"
proof -
  have h: "get_tracks (PDict [(''media'', PDict [(''track'', PList [])])]) = Inr (PList [])"
    by (simp add: get_tracks_def)
  show ?thesis
    using h describe_empty_track_list
      [of "\<lparr>executor = Exec \<lparr>location = ''mediainfo'', version = [18, 12]\<rparr>\<rparr>"
          "\<lparr>location = ''mediainfo'', version = [18, 12]\<rparr>"
          "\<lambda>e p. Inr (PDict [(''media'', PDict [(''track'', PList [])])])" "''a.mkv''"
          "PDict [(''media'', PDict [(''track'', PList [])])]"
          "\<lambda>p g v a s c. (Inr (PDict [(''path'', PStr p)]), c)" "''20.0''"
          "\<lparr>warnings = [], debug_data = None\<rparr>"]
    by simp
qed




text \<open>
  C8: the result of every successful \<^verbatim>\<open>describe\<close> call is a \<^verbatim>\<open>dict\<close> whose
  \<^verbatim>\<open>provider\<close> entry is \<^verbatim>\<open>{name: "mediainfo", version: self.version}\<close>, where the version
  is the one of \<^verbatim>\<open>pymediainfo\<close> and, keyed by the executor's location, the executor's
  version written \<^verbatim>\<open>v\<close> and the numbers joined by dots.
\<close>

theorem describe_provider_block:
  assumes "MediaInfoProvider_describe describe_tracks extract_info pymediainfo_version self
             video_path context = (Inr result, context')"
  shows "\<exists>d ex. result = PDict d
           \<and> map_of d ''provider''
               = Some (PDict [(''name'', PStr ''mediainfo''),
                              (''version'', MediaInfoProvider_version pymediainfo_version self)])
           \<and> executor self = Exec ex
           \<and> MediaInfoProvider_version pymediainfo_version self
               = PDict (AList.update (location ex)
                          (PStr (''v'' @ py_join ''.'' (map str_of_int (version ex))))
                          [(''pymediainfo'', PStr pymediainfo_version)])"
proof -
  from assms obtain ex where ex: "executor self = Exec ex"
    by (cases "executor self") (simp_all add: MediaInfoProvider_describe_def)
  from assms ex obtain data where data: "extract_info ex video_path = Inr data"
    by (cases "extract_info ex video_path") (simp_all add: MediaInfoProvider_describe_def)
  obtain o1 c1 where rc:
    "describe_result describe_tracks video_path data (context\<lparr>debug_data := Some data\<rparr>) = (o1, c1)"
    by (cases "describe_result describe_tracks video_path data (context\<lparr>debug_data := Some data\<rparr>)")
  from assms ex data rc have a: "add_provider pymediainfo_version self (o1, c1) = (Inr result, context')"
    by (simp add: MediaInfoProvider_describe_def)
  from add_provider_Inr [OF a] obtain d0 where res:
    "result = PDict (AList.update ''provider''
                 (PDict [(''name'', PStr ''mediainfo''),
                         (''version'', MediaInfoProvider_version pymediainfo_version self)]) d0)"
    by blast
  have m: "map_of (AList.update ''provider''
                 (PDict [(''name'', PStr ''mediainfo''),
                         (''version'', MediaInfoProvider_version pymediainfo_version self)]) d0)
             ''provider''
           = Some (PDict [(''name'', PStr ''mediainfo''),
                         (''version'', MediaInfoProvider_version pymediainfo_version self)])"
    by (rule map_of_update_same)
  have v: "MediaInfoProvider_version pymediainfo_version self
               = PDict (AList.update (location ex)
                          (PStr (''v'' @ py_join ''.'' (map str_of_int (version ex))))
                          [(''pymediainfo'', PStr pymediainfo_version)])"
    unfolding MediaInfoProvider_version_def Let_def ex by simp
  from res m ex v show ?thesis
    by (intro exI conjI)
qed

theorem describe_provider_block_witness:
  "MediaInfoProvider_describe echo_tracks
        (\<lambda>ex p. Inr (probe_output [example_track ''General'' ''g'']))
        ''20.0'' example_provider ''a.mkv'' example_context
     = (Inr (PDict [(''path'', PStr ''a.mkv''), (''general'', example_track ''General'' ''g''),
                    (''video'', PList []), (''audio'', PList []), (''subtitle'', PList []),
                    (''provider'',
                     PDict [(''name'', PStr ''mediainfo''),
                            (''version'', PDict [(''pymediainfo'', PStr ''20.0''),
                                                 (''libmediainfo.so.0'', PStr ''v18.12'')])])]),
        example_context\<lparr>debug_data := Some (probe_output [example_track ''General'' ''g''])\<rparr>)
   \<and> MediaInfoProvider_version ''20.0'' example_provider
       = PDict [(''pymediainfo'', PStr ''20.0''), (''libmediainfo.so.0'', PStr ''v18.12'')]"
proof -
  have v: "MediaInfoProvider_version ''20.0'' example_provider
       = PDict [(''pymediainfo'', PStr ''20.0''), (''libmediainfo.so.0'', PStr ''v18.12'')]"
    by code_simp
  have d: "MediaInfoProvider_describe echo_tracks
        (\<lambda>ex p. Inr (probe_output [example_track ''General'' ''g'']))
        ''20.0'' example_provider ''a.mkv'' example_context
     = (Inr (PDict [(''path'', PStr ''a.mkv''), (''general'', example_track ''General'' ''g''),
                    (''video'', PList []), (''audio'', PList []), (''subtitle'', PList []),
                    (''provider'',
                     PDict [(''name'', PStr ''mediainfo''),
                            (''version'', MediaInfoProvider_version ''20.0'' example_provider)])]),
        example_context\<lparr>debug_data := Some (probe_output [example_track ''General'' ''g''])\<rparr>)"
    by (simp add: MediaInfoProvider_describe_def describe_result_def add_provider_def
          get_tracks_def no_tracks_def example_defs)
  from describe_provider_block [OF d] v d show ?thesis
    by simp
qed

text \<open>
  C7: when the lookup of the executor finds none, \<^verbatim>\<open>accepts\<close> returns \<^verbatim>\<open>False\<close> for
  every path, on the first call and on every call after it.
\<close>

theorem accepts_without_executor:
  assumes "get_executor_instance creates = None"
  shows "fst (MediaInfoProvider_accepts video_extensions (MediaInfoProvider_init creates) video_path)
           = PBool False
       \<and> fst (MediaInfoProvider_accepts video_extensions
                (snd (MediaInfoProvider_accepts video_extensions (MediaInfoProvider_init creates)
                        video_path)) video_path')
           = PBool False
       \<and> \<not> py_truthy (PBool False)"
  using assms by (simp add: MediaInfoProvider_accepts_def MediaInfoProvider_init_def)

theorem accepts_without_executor_witness:
  "get_executor_instance [None, None] = None
   \<and> fst (MediaInfoProvider_accepts [''.mkv''] (MediaInfoProvider_init [None, None]) ''a.mkv'')
       = PBool False"
proof -
  have h: "get_executor_instance [None, None] = None"
    by simp
  show ?thesis
    using h accepts_without_executor [OF h, of "[''.mkv'']" "''a.mkv''" "''a.mkv''"] by simp
qed

text \<open>
  C10: with several General tracks, \<^verbatim>\<open>describe\<close> passes the first one in list order to
  \<^verbatim>\<open>_describe_tracks\<close>, with the context it would pass anyway; the later General tracks
  reach no argument, and the value of \<^verbatim>\<open>result\<close> is the one of the track list without them.
\<close>

theorem describe_first_general_track:
  assumes "list_all is_dict (xs @ g # ys)"
    and "\<forall>t \<in> set xs. \<not> has_type ''General'' t"
    and "has_type ''General'' g"
    and "executor self = Exec ex"
    and "extract_info ex video_path = Inr data"
    and "get_tracks data = Inr (PList (xs @ g # ys))"
  shows "MediaInfoProvider_describe describe_tracks extract_info pymediainfo_version self
           video_path context
         = add_provider pymediainfo_version self
             (describe_tracks video_path g
                (filter (has_type ''Video'') (xs @ ys)) (filter (has_type ''Audio'') (xs @ ys))
                (filter (has_type ''Text'') (xs @ ys)) (context\<lparr>debug_data := Some data\<rparr>))
       \<and> (\<forall>data'. get_tracks data'
                     = Inr (PList (xs @ g # filter (\<lambda>t. \<not> has_type ''General'' t) ys)) \<longrightarrow>
              describe_result describe_tracks video_path data context
              = describe_result describe_tracks video_path data' context)"
proof -
  have f: "filter (has_type ''General'') xs = []"
    using assms(2) by (simp add: filter_empty_conv)
  have n: "\<not> has_type ''Video'' g" "\<not> has_type ''Audio'' g" "\<not> has_type ''Text'' g"
    using has_type_excl(1) [OF assms(3)] by simp_all
  have a: "MediaInfoProvider_describe describe_tracks extract_info pymediainfo_version self
           video_path context
         = add_provider pymediainfo_version self
             (describe_tracks video_path g
                (filter (has_type ''Video'') (xs @ ys)) (filter (has_type ''Audio'') (xs @ ys))
                (filter (has_type ''Text'') (xs @ ys)) (context\<lparr>debug_data := Some data\<rparr>))"
    using assms(4-6) f n assms(3)
    by (simp add: MediaInfoProvider_describe_def describe_result_dicts [OF assms(6) assms(1)])
  have b: "\<forall>data'. get_tracks data'
                     = Inr (PList (xs @ g # filter (\<lambda>t. \<not> has_type ''General'' t) ys)) \<longrightarrow>
              describe_result describe_tracks video_path data context
              = describe_result describe_tracks video_path data' context"
    using describe_result_later_general [OF assms(1) assms(2) assms(3) assms(6)] by blast
  from a b show ?thesis
    by (rule conjI)
qed

theorem describe_first_general_track_witness:
  "MediaInfoProvider_describe echo_tracks
        (\<lambda>ex p. Inr (probe_output [example_track ''Menu'' ''m'', example_track ''General'' ''g1'',
                                    example_track ''Video'' ''v'', example_track ''General'' ''g2'']))
        ''20.0'' example_provider ''a.mkv'' example_context
      = add_provider ''20.0'' example_provider
          (echo_tracks ''a.mkv'' (example_track ''General'' ''g1'')
             [example_track ''Video'' ''v''] [] []
             (example_context\<lparr>debug_data :=
                Some (probe_output [example_track ''Menu'' ''m'', example_track ''General'' ''g1'',
                        example_track ''Video'' ''v'', example_track ''General'' ''g2''])\<rparr>))"
proof -
  let ?xs = "[example_track ''Menu'' ''m'']"
  let ?g = "example_track ''General'' ''g1''"
  let ?ys = "[example_track ''Video'' ''v'', example_track ''General'' ''g2'']"
  have h1: "list_all is_dict (?xs @ ?g # ?ys)"
    by (simp add: example_track_def)
  have h2: "\<forall>t \<in> set ?xs. \<not> has_type ''General'' t"
    by (simp add: has_type_def example_track_def)
  have h3: "has_type ''General'' ?g"
    by (simp add: has_type_def example_track_def)
  have h4: "executor example_provider = Exec example_executor"
    by (simp add: example_provider_def)
  have h6: "get_tracks (probe_output (?xs @ ?g # ?ys)) = Inr (PList (?xs @ ?g # ?ys))"
    by (simp add: get_tracks_def probe_output_def)
  have f: "filter (has_type ''Video'') (?xs @ ?ys) = [example_track ''Video'' ''v'']"
    "filter (has_type ''Audio'') (?xs @ ?ys) = []"
    "filter (has_type ''Text'') (?xs @ ?ys) = []"
    by (simp_all add: has_type_def example_track_def)
  show ?thesis
    using f
      describe_first_general_track [OF h1 h2 h3 h4 _ h6,
        of "\<lambda>ex p. Inr (probe_output (?xs @ ?g # ?ys))" "''a.mkv''" echo_tracks "''20.0''"
           example_context]
    by simp
qed

end
